theory Spec2Isabelle
  imports Main
begin

section \<open>Values, exceptions and the outside world of TextractAPI/handler.py\<close>

text \<open>
  The four Lambda handlers of \<^verbatim>\<open>src/TextractAPI/handler.py\<close> receive their event as a
  Python dictionary decoded from JSON, so events are values of \<open>json\<close>. A JSON object
  is an association list; \<open>map_of\<close> reads it as the dictionary it is.
\<close>

datatype json =
    JNull
  | JBool bool
  | JNum int
  | JStr string
  | JArr "json list"
  | JObj "(string \<times> json) list"

text \<open>
  The exceptions the handlers can meet. \<open>KeyError k\<close> carries the missing key;
  \<open>ClientError\<close> is any failure of a boto3 call (S3, DynamoDB, Textract) and
  \<open>RequestException\<close> any failure of \<^verbatim>\<open>requests.post\<close>, each with its message.
\<close>

datatype error =
    KeyError string
  | IndexError
  | TypeError
  | JSONDecodeError
  | BinasciiError
  | ClientError string
  | RequestException string

text \<open>
  A response is the dictionary \<^verbatim>\<open>{'statusCode': ..., 'body': json.dumps(...)}\<close>. The body
  is kept as the value handed to \<^verbatim>\<open>json.dumps\<close>; \<open>ErrorBody e\<close> stands for
  \<^verbatim>\<open>json.dumps({'error': str(e)})\<close>.
\<close>

datatype body = JsonBody json | ErrorBody error

record response =
  statusCode :: int
  body :: body

type_synonym bytes = string

text \<open>A DynamoDB item of the files table: attribute name to (string) value.\<close>

type_synonym item = "string \<rightharpoonup> string"

text \<open>
  The durable state the handlers share: the DynamoDB table \<^verbatim>\<open>FILES_TABLE\<close> keyed by
  \<^verbatim>\<open>file_id\<close>, the S3 objects keyed by bucket and key, and the calls made to
  \<^verbatim>\<open>requests.post\<close> so far, in order, each with its url and the \<^verbatim>\<open>file_id\<close> and
  \<^verbatim>\<open>text\<close> of its JSON payload.
\<close>

record world =
  files_table :: "string \<rightharpoonup> item"
  s3 :: "(string \<times> string) \<rightharpoonup> bytes"
  post_calls :: "(json \<times> json \<times> json) list"

text \<open>
  What one invocation gets from outside the module: the environment variable
  \<^verbatim>\<open>BUCKET_NAME\<close>, the library functions \<^verbatim>\<open>json.loads\<close> and \<^verbatim>\<open>base64.b64decode\<close>
  (\<open>None\<close> where they raise), the identifier \<^verbatim>\<open>uuid.uuid4()\<close> returns, the
  exception each service call raises if it fails, Textract's answer for given bytes, and
  the outcome of \<^verbatim>\<open>requests.post\<close> (a status code, or an exception). A service call
  that raises has no effect on the world.
\<close>

record env =
  BUCKET_NAME :: string
  json_loads :: "string \<Rightarrow> json option"
  b64decode :: "string \<Rightarrow> bytes option"
  uuid4 :: string
  put_item_fault :: "error option"
  put_object_fault :: "error option"
  update_item_fault :: "error option"
  get_object_fault :: "error option"
  get_item_fault :: "error option"
  detect_document_text :: "bytes \<Rightarrow> error + json"
  requests_post :: "json \<Rightarrow> json \<Rightarrow> json \<Rightarrow> error + int"

subsection \<open>Python's subscripts and iteration on decoded JSON\<close>

text \<open>\<^verbatim>\<open>v[k]\<close> for a string key \<open>k\<close>: only a dictionary has string keys.\<close>

fun getitem :: "json \<Rightarrow> string \<Rightarrow> error + json" where
  "getitem (JObj kvs) k = (case map_of kvs k of None \<Rightarrow> Inl (KeyError k) | Some v \<Rightarrow> Inr v)"
| "getitem _ k = Inl TypeError"

text \<open>\<^verbatim>\<open>v[0]\<close>: the first element of a list or string; a dictionary of string keys has
  no key \<open>0\<close>.\<close>

fun getitem0 :: "json \<Rightarrow> error + json" where
  "getitem0 (JArr []) = Inl IndexError"
| "getitem0 (JArr (x # xs)) = Inr x"
| "getitem0 (JStr []) = Inl IndexError"
| "getitem0 (JStr (c # cs)) = Inr (JStr [c])"
| "getitem0 (JObj kvs) = Inl (KeyError ''0'')"
| "getitem0 _ = Inl TypeError"

text \<open>\<^verbatim>\<open>for x in v\<close>: a list gives its elements, a dictionary its keys, a string its
  characters; nothing else is iterable.\<close>

fun iter :: "json \<Rightarrow> error + json list" where
  "iter (JArr xs) = Inr xs"
| "iter (JObj kvs) = Inr (map (\<lambda>kv. JStr (fst kv)) kvs)"
| "iter (JStr s) = Inr (map (\<lambda>c. JStr [c]) s)"
| "iter _ = Inl TypeError"

text \<open>\<^verbatim>\<open>sep.join(xs)\<close> on strings.\<close>

fun join :: "string \<Rightarrow> string list \<Rightarrow> string" where
  "join sep [] = []"
| "join sep [x] = x"
| "join sep (x # y # ys) = x @ sep @ join sep (y # ys)"

subsection \<open>The service calls\<close>

text \<open>\<^verbatim>\<open>table.put_item(Item=it)\<close> replaces whatever item the key had.\<close>

definition put_item :: "env \<Rightarrow> string \<Rightarrow> item \<Rightarrow> world \<Rightarrow> error + world" where
  "put_item env k it w =
     (case put_item_fault env of
        Some e \<Rightarrow> Inl e
      | None \<Rightarrow> Inr (w\<lparr>files_table := (files_table w)(k \<mapsto> it)\<rparr>))"

text \<open>
  \<^verbatim>\<open>table.update_item(Key={'file_id': k}, UpdateExpression="SET ...")\<close> with no
  \<^verbatim>\<open>ConditionExpression\<close>: the attributes are set on the item of that key, which is
  created with its key attribute when it does not exist.
\<close>

fun set_attrs :: "item \<Rightarrow> (string \<times> string) list \<Rightarrow> item" where
  "set_attrs it [] = it"
| "set_attrs it ((a, v) # avs) = set_attrs (it(a \<mapsto> v)) avs"

definition update_item :: "env \<Rightarrow> string \<Rightarrow> (string \<times> string) list \<Rightarrow> world \<Rightarrow> error + world" where
  "update_item env k avs w =
     (case update_item_fault env of
        Some e \<Rightarrow> Inl e
      | None \<Rightarrow>
          (let old = (case files_table w k of None \<Rightarrow> [''file_id'' \<mapsto> k] | Some it \<Rightarrow> it)
           in Inr (w\<lparr>files_table := (files_table w)(k \<mapsto> set_attrs old avs)\<rparr>)))"

definition put_object :: "env \<Rightarrow> string \<Rightarrow> string \<Rightarrow> bytes \<Rightarrow> world \<Rightarrow> error + world" where
  "put_object env b k content w =
     (case put_object_fault env of
        Some e \<Rightarrow> Inl e
      | None \<Rightarrow> Inr (w\<lparr>s3 := (s3 w)((b, k) \<mapsto> content)\<rparr>))"

text \<open>\<^verbatim>\<open>s3_client.get_object(Bucket=b, Key=k)['Body'].read()\<close>: bucket and key must be
  strings, and the object must exist.\<close>

fun get_object :: "env \<Rightarrow> json \<Rightarrow> json \<Rightarrow> world \<Rightarrow> error + bytes" where
  "get_object env (JStr b) (JStr k) w =
     (case get_object_fault env of
        Some e \<Rightarrow> Inl e
      | None \<Rightarrow> (case s3 w (b, k) of None \<Rightarrow> Inl (ClientError ''NoSuchKey'') | Some c \<Rightarrow> Inr c))"
| "get_object env _ _ w = Inl (ClientError ''ParamValidationError'')"

text \<open>Sequencing of steps that may raise: the first exception ends the chain.\<close>

definition and_then :: "error + 'a \<Rightarrow> ('a \<Rightarrow> error + 'b) \<Rightarrow> error + 'b" where
  "and_then m f = (case m of Inl e \<Rightarrow> Inl e | Inr x \<Rightarrow> f x)"

text \<open>\<^verbatim>\<open>json.loads(v)\<close> and \<^verbatim>\<open>base64.b64decode(v)\<close> on a decoded JSON value: both want a
  string.\<close>

fun loads :: "env \<Rightarrow> json \<Rightarrow> error + json" where
  "loads env (JStr s) = (case json_loads env s of None \<Rightarrow> Inl JSONDecodeError | Some v \<Rightarrow> Inr v)"
| "loads env _ = Inl TypeError"

fun decode :: "env \<Rightarrow> json \<Rightarrow> error + bytes" where
  "decode env (JStr s) = (case b64decode env s of None \<Rightarrow> Inl BinasciiError | Some c \<Rightarrow> Inr c)"
| "decode env _ = Inl TypeError"

section \<open>create_file\<close>

text \<open>
  The body of the \<^verbatim>\<open>try\<close> block (lines 34 to 64). It returns the response or the
  exception raised, with the world as it is at that moment. The local \<^verbatim>\<open>body\<close> of the
  source is \<open>request_body\<close> here, \<open>body\<close> being the field of the response.
\<close>

definition create_file_try :: "env \<Rightarrow> json \<Rightarrow> world \<Rightarrow> (error + response) \<times> world" where
  "create_file_try env event w =
     (case and_then (getitem event ''body'') (loads env) of
        Inl e \<Rightarrow> (Inl e, w)
      | Inr request_body \<Rightarrow>
     (case and_then (getitem request_body ''file'') (decode env) of
        Inl e \<Rightarrow> (Inl e, w)
      | Inr file_content \<Rightarrow>
     (let file_id = uuid4 env in
     (case put_item env file_id [''file_id'' \<mapsto> file_id, ''status'' \<mapsto> ''UPLOADING''] w of
        Inl e \<Rightarrow> (Inl e, w)
      | Inr w1 \<Rightarrow>
     (case put_object env (BUCKET_NAME env) file_id file_content w1 of
        Inl e \<Rightarrow> (Inl e, w1)
      | Inr w2 \<Rightarrow>
     (case update_item env file_id [(''status'', ''UPLOADED'')] w2 of
        Inl e \<Rightarrow> (Inl e, w2)
      | Inr w3 \<Rightarrow>
          (Inr \<lparr>statusCode = 200, body = JsonBody (JObj [(''file_id'', JStr file_id)])\<rparr>,
           w3)))))))"

text \<open>The handler: \<^verbatim>\<open>except Exception\<close> turns every exception into a 500 response.\<close>

definition create_file :: "env \<Rightarrow> json \<Rightarrow> world \<Rightarrow> response \<times> world" where
  "create_file env event w =
     (case create_file_try env event w of
        (Inl e, w') \<Rightarrow> (\<lparr>statusCode = 500, body = ErrorBody e\<rparr>, w')
      | (Inr r, w') \<Rightarrow> (r, w'))"

section \<open>process_file\<close>

text \<open>
  The list comprehension of line 100:
  \<^verbatim>\<open>[item['Text'] for item in blocks if item['BlockType'] == 'LINE']\<close>.
\<close>

fun line_texts :: "json list \<Rightarrow> error + json list" where
  "line_texts [] = Inr []"
| "line_texts (b # bs) =
     (case getitem b ''BlockType'' of
        Inl e \<Rightarrow> Inl e
      | Inr t \<Rightarrow>
          if t = JStr ''LINE''
          then (case getitem b ''Text'' of
                  Inl e \<Rightarrow> Inl e
                | Inr x \<Rightarrow> (case line_texts bs of Inl e \<Rightarrow> Inl e | Inr xs \<Rightarrow> Inr (x # xs)))
          else line_texts bs)"

text \<open>\<^verbatim>\<open>" ".join(xs)\<close> raises TypeError unless every element is a string.\<close>

fun strings_of :: "json list \<Rightarrow> error + string list" where
  "strings_of [] = Inr []"
| "strings_of (JStr s # xs) =
     (case strings_of xs of Inl e \<Rightarrow> Inl e | Inr ss \<Rightarrow> Inr (s # ss))"
| "strings_of (_ # xs) = Inl TypeError"

definition detected_text :: "json \<Rightarrow> error + string" where
  "detected_text textract_response =
     and_then (getitem textract_response ''Blocks'') (\<lambda>blocks.
     and_then (iter blocks) (\<lambda>items.
     and_then (line_texts items) (\<lambda>texts.
     and_then (strings_of texts) (\<lambda>ss. Inr (join '' '' ss)))))"

text \<open>\<^verbatim>\<open>event['Records'][0]['s3'][what][name]\<close>, lines 87 and 88.\<close>

definition s3_field :: "json \<Rightarrow> string \<Rightarrow> string \<Rightarrow> error + json" where
  "s3_field event what name =
     and_then (getitem event ''Records'') (\<lambda>records.
     and_then (getitem0 records) (\<lambda>record.
     and_then (getitem record ''s3'') (\<lambda>s.
     and_then (getitem s what) (\<lambda>x. getitem x name))))"

text \<open>The key of \<^verbatim>\<open>update_item\<close> must be a string.\<close>

fun update_item_key :: "env \<Rightarrow> json \<Rightarrow> (string \<times> string) list \<Rightarrow> world \<Rightarrow> error + world" where
  "update_item_key env (JStr k) avs w = update_item env k avs w"
| "update_item_key env _ avs w = Inl (ClientError ''ParamValidationError'')"

text \<open>
  The body of the \<^verbatim>\<open>try\<close> block (lines 84 to 114). Nothing is read from the files
  table, and the only write is the unconditional \<^verbatim>\<open>update_item\<close> of line 104.
\<close>

definition process_file_try :: "env \<Rightarrow> json \<Rightarrow> world \<Rightarrow> (error + response) \<times> world" where
  "process_file_try env event w =
     (case s3_field event ''bucket'' ''name'' of
        Inl e \<Rightarrow> (Inl e, w)
      | Inr bucket_name \<Rightarrow>
     (case s3_field event ''object'' ''key'' of
        Inl e \<Rightarrow> (Inl e, w)
      | Inr object_key \<Rightarrow>
     (case get_object env bucket_name object_key w of
        Inl e \<Rightarrow> (Inl e, w)
      | Inr file_content \<Rightarrow>
     (case and_then (detect_document_text env file_content) detected_text of
        Inl e \<Rightarrow> (Inl e, w)
      | Inr text \<Rightarrow>
     (case update_item_key env object_key [(''status'', ''PROCESSED''), (''text'', text)] w of
        Inl e \<Rightarrow> (Inl e, w)
      | Inr w1 \<Rightarrow>
          (Inr \<lparr>statusCode = 200,
                body = JsonBody (JObj [(''file_id'', object_key),
                                       (''status'', JStr ''PROCESSED'')])\<rparr>,
           w1))))))"

definition process_file :: "env \<Rightarrow> json \<Rightarrow> world \<Rightarrow> response \<times> world" where
  "process_file env event w =
     (case process_file_try env event w of
        (Inl e, w') \<Rightarrow> (\<lparr>statusCode = 500, body = ErrorBody e\<rparr>, w')
      | (Inr r, w') \<Rightarrow> (r, w'))"

section \<open>make_callback\<close>

text \<open>\<^verbatim>\<open>new_image[attr]['S']\<close>.\<close>

definition image_attr :: "json \<Rightarrow> string \<Rightarrow> error + json" where
  "image_attr new_image attr = and_then (getitem new_image attr) (\<lambda>a. getitem a ''S'')"

text \<open>
  \<^verbatim>\<open>requests.post(callback_url, json={'file_id': file_id, 'text': text})\<close>: the call is
  recorded, then it returns its status code or raises.
\<close>

definition post :: "env \<Rightarrow> json \<Rightarrow> json \<Rightarrow> json \<Rightarrow> world \<Rightarrow> (error + int) \<times> world" where
  "post env url file_id text w =
     (requests_post env url file_id text,
      w\<lparr>post_calls := post_calls w @ [(url, file_id, text)]\<rparr>)"

text \<open>
  The body of the loop (lines 132 to 142) for one record. The status code of the
  response is only logged. The function has no \<^verbatim>\<open>try\<close>: an exception leaves it.
\<close>

definition callback_record :: "env \<Rightarrow> json \<Rightarrow> world \<Rightarrow> (error + unit) \<times> world" where
  "callback_record env record w =
     (case getitem record ''eventName'' of
        Inl e \<Rightarrow> (Inl e, w)
      | Inr event_name \<Rightarrow>
          if event_name = JStr ''MODIFY''
          then
            (case and_then (getitem record ''dynamodb'') (\<lambda>d. getitem d ''NewImage'') of
               Inl e \<Rightarrow> (Inl e, w)
             | Inr new_image \<Rightarrow>
            (case image_attr new_image ''file_id'' of
               Inl e \<Rightarrow> (Inl e, w)
             | Inr file_id \<Rightarrow>
            (case image_attr new_image ''status'' of
               Inl e \<Rightarrow> (Inl e, w)
             | Inr status \<Rightarrow>
                 if status = JStr ''COMPLETED''
                 then
                   (case image_attr new_image ''callback_url'' of
                      Inl e \<Rightarrow> (Inl e, w)
                    | Inr callback_url \<Rightarrow>
                   (case image_attr new_image ''text'' of
                      Inl e \<Rightarrow> (Inl e, w)
                    | Inr text \<Rightarrow>
                   (case post env callback_url file_id text w of
                      (Inl e, w') \<Rightarrow> (Inl e, w')
                    | (Inr code, w') \<Rightarrow> (Inr (), w'))))
                 else (Inr (), w))))
          else (Inr (), w))"

fun callback_records :: "env \<Rightarrow> json list \<Rightarrow> world \<Rightarrow> (error + unit) \<times> world" where
  "callback_records env [] w = (Inr (), w)"
| "callback_records env (record # records) w =
     (case callback_record env record w of
        (Inl e, w') \<Rightarrow> (Inl e, w')
      | (Inr u, w') \<Rightarrow> callback_records env records w')"

definition make_callback :: "env \<Rightarrow> json \<Rightarrow> world \<Rightarrow> (error + unit) \<times> world" where
  "make_callback env event w =
     (case and_then (getitem event ''Records'') iter of
        Inl e \<Rightarrow> (Inl e, w)
      | Inr records \<Rightarrow> callback_records env records w)"

section \<open>get_file\<close>

text \<open>\<^verbatim>\<open>table.get_item(Key={'file_id': file_id}).get('Item')\<close>: the key must be a
  string.\<close>

fun get_item :: "env \<Rightarrow> json \<Rightarrow> world \<Rightarrow> error + item option" where
  "get_item env (JStr k) w =
     (case get_item_fault env of Some e \<Rightarrow> Inl e | None \<Rightarrow> Inr (files_table w k))"
| "get_item env _ w = Inl (ClientError ''ParamValidationError'')"

text \<open>
  \<^verbatim>\<open>if item:\<close> is false for a missing item and for an empty dictionary (an item that
  DynamoDB stores has at least its key attribute). The function has no \<^verbatim>\<open>try\<close>, and
  it writes nothing.
\<close>

definition get_file :: "env \<Rightarrow> json \<Rightarrow> world \<Rightarrow> error + response" where
  "get_file env event w =
     (case and_then (getitem event ''pathParameters'') (\<lambda>p. getitem p ''file_id'') of
        Inl e \<Rightarrow> Inl e
      | Inr file_id \<Rightarrow>
     (case get_item env file_id w of
        Inl e \<Rightarrow> Inl e
      | Inr None \<Rightarrow>
          Inr \<lparr>statusCode = 404,
               body = JsonBody (JObj [(''error'', JStr ''File not found'')])\<rparr>
      | Inr (Some item) \<Rightarrow>
          if item = Map.empty
          then Inr \<lparr>statusCode = 404,
                body = JsonBody (JObj [(''error'', JStr ''File not found'')])\<rparr>
          else
            (case item ''status'' of
               None \<Rightarrow> Inl (KeyError ''status'')
             | Some status \<Rightarrow>
                 Inr \<lparr>statusCode = 200,
                      body = JsonBody (JObj [(''file_id'', file_id),
                                             (''status'', JStr status),
                                             (''text'', (case item ''text'' of
                                                           None \<Rightarrow> JNull
                                                         | Some t \<Rightarrow> JStr t))])\<rparr>)))"

section \<open>Sequences of invocations\<close>

text \<open>
  The handlers are invoked independently, each with its own event and its own outcomes
  of the outside world; a history is a list of such invocations, applied in order.
\<close>

datatype call =
    CreateFile env json
  | ProcessFile env json
  | MakeCallback env json
  | GetFile env json

fun step :: "call \<Rightarrow> world \<Rightarrow> world" where
  "step (CreateFile env event) w = snd (create_file env event w)"
| "step (ProcessFile env event) w = snd (process_file env event w)"
| "step (MakeCallback env event) w = snd (make_callback env event w)"
| "step (GetFile env event) w = w"

fun run :: "call list \<Rightarrow> world \<Rightarrow> world" where
  "run [] w = w"
| "run (c # cs) w = run cs (step c w)"

text \<open>The key an invocation can write in the files table: the identifier
  \<^verbatim>\<open>create_file\<close> generates, the object key \<^verbatim>\<open>process_file\<close> is given.\<close>

fun writes_key :: "call \<Rightarrow> string \<Rightarrow> bool" where
  "writes_key (CreateFile env event) k = (uuid4 env = k)"
| "writes_key (ProcessFile env event) k = (s3_field event ''object'' ''key'' = Inr (JStr k))"
| "writes_key (MakeCallback env event) k = False"
| "writes_key (GetFile env event) k = False"

section \<open>Notions used to state the properties\<close>

text \<open>An attribute of the record of a document, \<open>None\<close> when the record or the
  attribute is absent.\<close>

definition attr_of :: "world \<Rightarrow> string \<Rightarrow> string \<Rightarrow> string option" where
  "attr_of w k a = (case files_table w k of None \<Rightarrow> None | Some it \<Rightarrow> it a)"

text \<open>Lines 34 and 35 of \<^verbatim>\<open>create_file\<close> as one expression: the decoded file content
  of an ingest request, or the exception that a malformed request raises.\<close>

definition file_content_of :: "env \<Rightarrow> json \<Rightarrow> error + bytes" where
  "file_content_of env event =
     and_then (and_then (getitem event ''body'') (loads env))
       (\<lambda>request_body. and_then (getitem request_body ''file'') (decode env))"




text \<open>
  The text of an extraction as the specification words it: the \<^verbatim>\<open>Text\<close> of exactly the
  blocks whose \<^verbatim>\<open>BlockType\<close> is \<^verbatim>\<open>LINE\<close>, in the order of the response, joined by one
  space.
\<close>

definition is_line :: "json \<Rightarrow> bool" where
  "is_line b = (getitem b ''BlockType'' = Inr (JStr ''LINE''))"

definition block_text :: "json \<Rightarrow> string" where
  "block_text b = (case getitem b ''Text'' of Inr (JStr s) \<Rightarrow> s | _ \<Rightarrow> [])"

definition spec_text :: "json list \<Rightarrow> string" where
  "spec_text blocks = join '' '' (map block_text (filter is_line blocks))"

text \<open>
  What DynamoDB and the handlers keep true of the files table: every item carries its key
  attribute and a \<^verbatim>\<open>status\<close>.
\<close>

definition ledger_ok :: "world \<Rightarrow> bool" where
  "ledger_ok w =
     (\<forall>k it. files_table w k = Some it \<longrightarrow> it ''file_id'' = Some k \<and> (\<exists>s. it ''status'' = Some s))"

section \<open>Concrete invocations\<close>

text \<open>
  An outside world in which every call succeeds: the request body below parses, its
  file decodes to \<^verbatim>\<open>hello\<close>, the identifier generated is \<^verbatim>\<open>id-1\<close>, Textract finds a
  page, two lines and a word, and the callback endpoint answers 200.
\<close>

definition demo_body :: string where
  \<open>demo_body = ''{"file": "aGVsbG8=", "callback_url": "https://example.test/hook"}''\<close>

definition demo_blocks :: "json list" where
  "demo_blocks =
     [JObj [(''BlockType'', JStr ''PAGE'')],
      JObj [(''BlockType'', JStr ''LINE''), (''Text'', JStr ''HELLO'')],
      JObj [(''BlockType'', JStr ''WORD''), (''Text'', JStr ''HELLO'')],
      JObj [(''BlockType'', JStr ''LINE''), (''Text'', JStr ''WORLD'')]]"

definition demo_env :: env where
  "demo_env =
     \<lparr>BUCKET_NAME = ''bucket'',
      json_loads = (\<lambda>s. if s = demo_body
                         then Some (JObj [(''file'', JStr ''aGVsbG8=''),
                                          (''callback_url'', JStr ''https://example.test/hook'')])
                         else None),
      b64decode = (\<lambda>s. if s = ''aGVsbG8='' then Some ''hello'' else None),
      uuid4 = ''id-1'',
      put_item_fault = None,
      put_object_fault = None,
      update_item_fault = None,
      get_object_fault = None,
      get_item_fault = None,
      detect_document_text = (\<lambda>c. Inr (JObj [(''Blocks'', JArr demo_blocks)])),
      requests_post = (\<lambda>url file_id text. Inr 200)\<rparr>"

definition ingest_event :: "string \<Rightarrow> json" where
  "ingest_event b = JObj [(''body'', JStr b)]"

definition s3_event :: "string \<Rightarrow> json" where
  "s3_event k =
     JObj [(''Records'',
            JArr [JObj [(''s3'', JObj [(''bucket'', JObj [(''name'', JStr ''bucket'')]),
                                       (''object'', JObj [(''key'', JStr k)])])]])]"

definition change_record :: "string \<Rightarrow> (string \<times> string) list \<Rightarrow> json" where
  "change_record event_name attrs =
     JObj [(''eventName'', JStr event_name),
           (''dynamodb'',
            JObj [(''NewImage'', JObj (map (\<lambda>(a, v). (a, JObj [(''S'', JStr v)])) attrs))])]"

definition stream_event :: "json list \<Rightarrow> json" where
  "stream_event records = JObj [(''Records'', JArr records)]"

definition query_event :: "string \<Rightarrow> json" where
  "query_event k = JObj [(''pathParameters'', JObj [(''file_id'', JStr k)])]"

definition empty_world :: world where
  "empty_world = \<lparr>files_table = Map.empty, s3 = Map.empty, post_calls = []\<rparr>"

text \<open>A world holding one document whose bytes are stored, in the given state and
  with the given further attributes.\<close>

definition world_with :: "string \<Rightarrow> string \<Rightarrow> (string \<times> string) list \<Rightarrow> world" where
  "world_with k state attrs =
     \<lparr>files_table = [k \<mapsto> set_attrs [''file_id'' \<mapsto> k, ''status'' \<mapsto> state] attrs],
      s3 = [(''bucket'', k) \<mapsto> ''hello''],
      post_calls = []\<rparr>"

section \<open>Basic facts about the handlers\<close>

lemma and_then_Inl [simp]: "and_then (Inl e) f = Inl e"
  by (simp add: and_then_def)

lemma and_then_Inr [simp]: "and_then (Inr x) f = f x"
  by (simp add: and_then_def)

lemma and_then_eq_Inr: "and_then m f = Inr y \<longleftrightarrow> (\<exists>x. m = Inr x \<and> f x = Inr y)"
  by (cases m) simp_all

lemmas service_defs = Let_def put_item_def update_item_def put_object_def post_def
lemmas handler_defs = create_file_def create_file_try_def process_file_def process_file_try_def
  make_callback_def callback_record_def get_file_def s3_field_def image_attr_def detected_text_def
lemmas demo_defs = demo_env_def demo_body_def demo_blocks_def ingest_event_def s3_event_def
  change_record_def stream_event_def query_event_def empty_world_def world_with_def

subsection \<open>create_file\<close>

lemma create_file_try_cases:
  "(case create_file_try env event w of
      (res, w') \<Rightarrow>
        ((\<exists>c. res = Inr \<lparr>statusCode = 200, body = JsonBody (JObj [(''file_id'', JStr (uuid4 env))])\<rparr> \<and>
           file_content_of env event = Inr c \<and>
           files_table w' = (files_table w)(uuid4 env \<mapsto> [''file_id'' \<mapsto> uuid4 env, ''status'' \<mapsto> ''UPLOADED'']) \<and>
           s3 w' (BUCKET_NAME env, uuid4 env) = Some c)
         \<or> ((\<exists>e. res = Inl e) \<and> w' = w)
         \<or> ((\<exists>e. res = Inl e) \<and>
            files_table w' = (files_table w)(uuid4 env \<mapsto> [''file_id'' \<mapsto> uuid4 env, ''status'' \<mapsto> ''UPLOADING'']))))"
  by (auto simp: create_file_try_def file_content_of_def service_defs split: sum.splits option.splits)

lemma malformed_request_500:
  "file_content_of env event = Inl e \<Longrightarrow>
   create_file env event w = (\<lparr>statusCode = 500, body = ErrorBody e\<rparr>, w)"
  by (auto simp: create_file_def create_file_try_def file_content_of_def split: sum.splits)

lemma create_file_status: "statusCode (fst (create_file env event w)) = 200 \<or> statusCode (fst (create_file env event w)) = 500"
  using create_file_try_cases [where env = env and event = event and w = w]
  by (auto simp: create_file_def split: prod.splits sum.splits)

lemma create_file_other_key:
  "uuid4 env \<noteq> k \<Longrightarrow> files_table (snd (create_file env event w)) k = files_table w k"
  using create_file_try_cases [where env = env and event = event and w = w]
  by (auto simp: create_file_def split: prod.splits sum.splits)

subsection \<open>process_file\<close>

lemma update_item_key_Inr:
  "update_item_key env key avs w = Inr w1 \<Longrightarrow>
   \<exists>k. key = JStr k \<and> update_item env k avs w = Inr w1"
  by (cases key) simp_all

lemma get_object_Inr:
  "get_object env bucket key w = Inr c \<Longrightarrow>
   \<exists>b k. bucket = JStr b \<and> key = JStr k \<and> s3 w (b, k) = Some c"
  by (cases bucket; cases key) (auto split: option.splits)

lemma process_file_try_cases:
  "(case process_file_try env event w of
      (res, w') \<Rightarrow>
        ((\<exists>e. res = Inl e) \<and> w' = w)
        \<or> (\<exists>b k c resp text.
              res = Inr \<lparr>statusCode = 200,
                         body = JsonBody (JObj [(''file_id'', JStr k), (''status'', JStr ''PROCESSED'')])\<rparr> \<and>
              s3_field event ''bucket'' ''name'' = Inr (JStr b) \<and>
              s3_field event ''object'' ''key'' = Inr (JStr k) \<and>
              s3 w (b, k) = Some c \<and>
              detect_document_text env c = Inr resp \<and>
              detected_text resp = Inr text \<and>
              w' = w\<lparr>files_table := (files_table w)(k \<mapsto>
                     (case files_table w k of None \<Rightarrow> [''file_id'' \<mapsto> k] | Some it \<Rightarrow> it)
                       (''status'' \<mapsto> ''PROCESSED'', ''text'' \<mapsto> text))\<rparr>))"
proof (cases "process_file_try env event w")
  case (Pair res w')
  show ?thesis
  proof (cases res)
    case (Inl e)
    with Pair have "w' = w"
      by (auto simp: process_file_try_def split: sum.splits)
    with Pair Inl show ?thesis by simp
  next
    case (Inr r)
    with Pair obtain bkt okey c tx w1 where
      b: "s3_field event ''bucket'' ''name'' = Inr bkt" and
      k: "s3_field event ''object'' ''key'' = Inr okey" and
      g: "get_object env bkt okey w = Inr c" and
      d: "and_then (detect_document_text env c) detected_text = Inr tx" and
      u: "update_item_key env okey [(''status'', ''PROCESSED''), (''text'', tx)] w = Inr w1" and
      r: "r = \<lparr>statusCode = 200,
                 body = JsonBody (JObj [(''file_id'', okey), (''status'', JStr ''PROCESSED'')])\<rparr>" and
      w': "w' = w1"
      by (auto simp: process_file_try_def split: sum.splits)
    from g obtain b' k' where bk: "bkt = JStr b'" "okey = JStr k'" "s3 w (b', k') = Some c"
      by (auto dest: get_object_Inr)
    from d obtain resp where resp: "detect_document_text env c = Inr resp" "detected_text resp = Inr tx"
      by (auto simp: and_then_eq_Inr)
    from u bk have "update_item env k' [(''status'', ''PROCESSED''), (''text'', tx)] w = Inr w1"
      by simp
    then have "w1 = w\<lparr>files_table := (files_table w)(k' \<mapsto>
                     (case files_table w k' of None \<Rightarrow> [''file_id'' \<mapsto> k'] | Some it \<Rightarrow> it)
                       (''status'' \<mapsto> ''PROCESSED'', ''text'' \<mapsto> tx))\<rparr>"
      by (auto simp: update_item_def Let_def split: option.splits)
    with Pair Inr b k bk resp r w' show ?thesis by simp
  qed
qed

lemma process_file_cases:
  "(case process_file env event w of
      (r, w') \<Rightarrow>
        (statusCode r = 500 \<and> (\<exists>e. body r = ErrorBody e) \<and> w' = w)
        \<or> (\<exists>b k c resp text.
              r = \<lparr>statusCode = 200,
                   body = JsonBody (JObj [(''file_id'', JStr k), (''status'', JStr ''PROCESSED'')])\<rparr> \<and>
              s3_field event ''bucket'' ''name'' = Inr (JStr b) \<and>
              s3_field event ''object'' ''key'' = Inr (JStr k) \<and>
              s3 w (b, k) = Some c \<and>
              detect_document_text env c = Inr resp \<and>
              detected_text resp = Inr text \<and>
              w' = w\<lparr>files_table := (files_table w)(k \<mapsto>
                     (case files_table w k of None \<Rightarrow> [''file_id'' \<mapsto> k] | Some it \<Rightarrow> it)
                       (''status'' \<mapsto> ''PROCESSED'', ''text'' \<mapsto> text))\<rparr>))"
  using process_file_try_cases [where env = env and event = event and w = w]
  by (cases "process_file_try env event w") (auto simp: process_file_def split: sum.splits)


lemma process_file_other_key:
  "s3_field event ''object'' ''key'' \<noteq> Inr (JStr k) \<Longrightarrow>
   files_table (snd (process_file env event w)) k = files_table w k"
  using process_file_cases [where env = env and event = event and w = w]
  by (cases "process_file env event w") auto

lemma update_item_key_error_world_free:
  "(update_item_key env k avs w1 = Inl e) = (update_item_key env k avs w2 = Inl e)"
  by (cases k) (simp_all add: update_item_def Let_def split: option.splits)

lemma get_object_ledger_free:
  "get_object env b k (w\<lparr>files_table := t\<rparr>) = get_object env b k w"
  by (cases b; cases k) (simp_all split: option.splits)

lemma process_file_response_ledger_free:
  "fst (process_file env event (w\<lparr>files_table := t\<rparr>)) = fst (process_file env event w)"
proof -
  have u: "update_item_key env k avs (w\<lparr>files_table := t\<rparr>) = Inl e \<Longrightarrow>
           update_item_key env k avs w = Inl e" for k avs e
    using update_item_key_error_world_free by blast
  have u': "update_item_key env k avs w = Inl e \<Longrightarrow>
            update_item_key env k avs (w\<lparr>files_table := t\<rparr>) = Inl e" for k avs e
    using update_item_key_error_world_free by blast
  show ?thesis
    by (auto simp: process_file_def process_file_try_def get_object_ledger_free
        split: sum.splits prod.splits dest: u u')
qed

subsection \<open>The text of an extraction\<close>

lemma line_texts_strings:
  "line_texts items = Inr xs \<Longrightarrow> strings_of xs = Inr ss \<Longrightarrow>
   ss = map block_text (filter is_line items)"
proof (induction items arbitrary: xs ss)
  case Nil
  then show ?case by simp
next
  case (Cons b bs)
  from Cons.prems(1) obtain t where t: "getitem b ''BlockType'' = Inr t"
    by (auto split: sum.splits)
  show ?case
  proof (cases "t = JStr ''LINE''")
    case False
    with t Cons.prems have "line_texts bs = Inr xs" by simp
    with Cons.IH Cons.prems(2) False t show ?thesis by (simp add: is_line_def)
  next
    case True
    with t Cons.prems(1) obtain x ys where
      x: "getitem b ''Text'' = Inr x" and ys: "line_texts bs = Inr ys" and xs: "xs = x # ys"
      by (auto split: sum.splits)
    from Cons.prems(2) xs obtain s ss' where
      s: "x = JStr s" and ss': "strings_of ys = Inr ss'" and ss: "ss = s # ss'"
      by (cases x) (auto split: sum.splits)
    from Cons.IH [OF ys ss'] True t x s ss show ?thesis
      by (simp add: is_line_def block_text_def)
  qed
qed

lemma detected_text_spec:
  "detected_text resp = Inr tx \<Longrightarrow>
   \<exists>blocks items. getitem resp ''Blocks'' = Inr blocks \<and> iter blocks = Inr items \<and>
     tx = spec_text items"
  by (auto simp: detected_text_def spec_text_def and_then_eq_Inr dest: line_texts_strings)

subsection \<open>make_callback\<close>

lemma callback_record_frame:
  "callback_record env record w =
     (fst (callback_record env record empty_world),
      w\<lparr>post_calls := post_calls w @ post_calls (snd (callback_record env record empty_world))\<rparr>)"
  by (simp add: callback_record_def post_def empty_world_def split: sum.splits)

lemma callback_records_frame:
  "callback_records env records w =
     (fst (callback_records env records empty_world),
      w\<lparr>post_calls := post_calls w @ post_calls (snd (callback_records env records empty_world))\<rparr>)"
proof (induction records arbitrary: w)
  case Nil
  show ?case by (simp add: empty_world_def)
next
  case (Cons r rs)
  obtain res ps where r0: "callback_record env r empty_world = (res, ps)"
    by (cases "callback_record env r empty_world")
  have rw: "callback_record env r w = (res, w\<lparr>post_calls := post_calls w @ post_calls ps\<rparr>)" for w
    using callback_record_frame [of env r w] r0 by simp
  show ?case
  proof (cases res)
    case (Inl e)
    with rw r0 show ?thesis by simp
  next
    case (Inr u)
    have "callback_records env (r # rs) w =
            callback_records env rs (w\<lparr>post_calls := post_calls w @ post_calls ps\<rparr>)"
      using rw Inr by simp
    also have "\<dots> = (fst (callback_records env rs empty_world),
        w\<lparr>post_calls := (post_calls w @ post_calls ps) @
           post_calls (snd (callback_records env rs empty_world))\<rparr>)"
      by (subst Cons.IH) simp
    finally have lhs: "callback_records env (r # rs) w =
        (fst (callback_records env rs empty_world),
         w\<lparr>post_calls := (post_calls w @ post_calls ps) @
           post_calls (snd (callback_records env rs empty_world))\<rparr>)" .
    have "callback_records env (r # rs) empty_world =
            callback_records env rs (empty_world\<lparr>post_calls := post_calls ps\<rparr>)"
      using rw [of empty_world] Inr by (simp add: empty_world_def)
    also have "\<dots> = (fst (callback_records env rs empty_world),
        empty_world\<lparr>post_calls := post_calls ps @
           post_calls (snd (callback_records env rs empty_world))\<rparr>)"
      by (subst Cons.IH) simp
    finally have rhs: "callback_records env (r # rs) empty_world =
        (fst (callback_records env rs empty_world),
         empty_world\<lparr>post_calls := post_calls ps @
           post_calls (snd (callback_records env rs empty_world))\<rparr>)" .
    show ?thesis unfolding lhs rhs by (simp add: empty_world_def)
  qed
qed

lemma make_callback_frame:
  "make_callback env event w =
     (fst (make_callback env event empty_world),
      w\<lparr>post_calls := post_calls w @ post_calls (snd (make_callback env event empty_world))\<rparr>)"
proof (cases "and_then (getitem event ''Records'') iter")
  case (Inl e)
  then show ?thesis by (simp add: make_callback_def empty_world_def)
next
  case (Inr records)
  then show ?thesis
    using callback_records_frame [of env records w] by (simp add: make_callback_def)
qed

lemma make_callback_ledger:
  "files_table (snd (make_callback env event w)) = files_table w"
  by (subst make_callback_frame) simp






subsection \<open>get_file\<close>

lemma get_file_unknown:
  assumes "and_then (getitem event ''pathParameters'') (\<lambda>p. getitem p ''file_id'') = Inr (JStr k)"
    and "files_table w k = None"
  shows "get_file env event w =
           (case get_item_fault env of
              Some e \<Rightarrow> Inl e
            | None \<Rightarrow> Inr \<lparr>statusCode = 404,
                           body = JsonBody (JObj [(''error'', JStr ''File not found'')])\<rparr>)"
  using assms by (simp add: get_file_def split: option.splits)

lemma get_file_known:
  assumes "and_then (getitem event ''pathParameters'') (\<lambda>p. getitem p ''file_id'') = Inr (JStr k)"
    and "get_item_fault env = None"
    and "files_table w k = Some it" and "it ''file_id'' = Some k" and "it ''status'' = Some s"
  shows "get_file env event w =
           Inr \<lparr>statusCode = 200,
                body = JsonBody (JObj [(''file_id'', JStr k), (''status'', JStr s),
                                       (''text'', (case it ''text'' of None \<Rightarrow> JNull | Some t \<Rightarrow> JStr t))])\<rparr>"
  using assms by (auto simp: get_file_def)

subsection \<open>The files table under a history\<close>

lemma step_other_key:
  "\<not> writes_key c k \<Longrightarrow> files_table (step c w) k = files_table w k"
  by (cases c) (simp_all add: create_file_other_key process_file_other_key make_callback_ledger)

lemma ledger_ok_empty: "ledger_ok empty_world"
  by (simp add: ledger_ok_def empty_world_def)

lemma ledger_ok_create_file:
  "ledger_ok w \<Longrightarrow> ledger_ok (snd (create_file env event w))"
  using create_file_try_cases [where env = env and event = event and w = w]
  by (cases "create_file_try env event w")
     (auto simp: create_file_def ledger_ok_def split: sum.splits if_splits)

lemma ledger_ok_process_file:
  "ledger_ok w \<Longrightarrow> ledger_ok (snd (process_file env event w))"
  using process_file_cases [where env = env and event = event and w = w]
  by (cases "process_file env event w")
     (auto simp: ledger_ok_def split: option.splits if_splits)

lemma ledger_ok_step: "ledger_ok w \<Longrightarrow> ledger_ok (step c w)"
proof (cases c)
  case (MakeCallback env event)
  assume "ledger_ok w"
  with MakeCallback show ?thesis by (simp add: ledger_ok_def make_callback_ledger)
qed (simp_all add: ledger_ok_create_file ledger_ok_process_file)

lemma ledger_ok_run: "ledger_ok w \<Longrightarrow> ledger_ok (run cs w)"
  by (induction cs arbitrary: w) (simp_all add: ledger_ok_step)

section \<open>The claims\<close>

subsection \<open>C1: what create_file leaves in the ledger\<close>



subsection \<open>C2: records that no invocation addresses are not changed\<close>

text \<open>
  C2, as amended. Whatever the state of a document (COMPLETED and FAILED included), no
  history of invocations changes its record, state and text included, as long as none of
  them writes its key: \<^verbatim>\<open>get_file\<close> and \<^verbatim>\<open>make_callback\<close> never write the ledger,
  \<^verbatim>\<open>create_file\<close> writes only the record of the identifier it generates, and
  \<^verbatim>\<open>process_file\<close> only the record of the object key it is given.
\<close>

theorem unaddressed_record_unchanged:
  "\<forall>c \<in> set cs. \<not> writes_key c k \<Longrightarrow> files_table (run cs w) k = files_table w k"
  by (induction cs arbitrary: w) (simp_all add: step_other_key)

theorem unaddressed_record_unchanged_witness:
  "\<not> writes_key (GetFile demo_env (query_event ''id-1'')) ''id-1''
   \<and> \<not> writes_key (MakeCallback demo_env
           (stream_event [change_record ''MODIFY''
              [(''file_id'', ''id-1''), (''status'', ''COMPLETED''),
               (''callback_url'', ''https://example.test/hook''), (''text'', ''HELLO WORLD'')]])) ''id-1''
   \<and> \<not> writes_key (CreateFile (demo_env\<lparr>uuid4 := ''id-2''\<rparr>) (ingest_event demo_body)) ''id-1''
   \<and> \<not> writes_key (ProcessFile demo_env (s3_event ''id-2'')) ''id-1''
   \<and> attr_of (run [GetFile demo_env (query_event ''id-1''),
                 MakeCallback demo_env
                   (stream_event [change_record ''MODIFY''
                      [(''file_id'', ''id-1''), (''status'', ''COMPLETED''),
                       (''callback_url'', ''https://example.test/hook''), (''text'', ''HELLO WORLD'')]]),
                 CreateFile (demo_env\<lparr>uuid4 := ''id-2''\<rparr>) (ingest_event demo_body),
                 ProcessFile demo_env (s3_event ''id-2'')]
               (world_with ''id-1'' ''COMPLETED'' [(''text'', ''HELLO WORLD'')])) ''id-1'' ''status''
      = Some ''COMPLETED''"
proof -
  let ?cs = "[GetFile demo_env (query_event ''id-1''),
              MakeCallback demo_env
                (stream_event [change_record ''MODIFY''
                   [(''file_id'', ''id-1''), (''status'', ''COMPLETED''),
                    (''callback_url'', ''https://example.test/hook''), (''text'', ''HELLO WORLD'')]]),
              CreateFile (demo_env\<lparr>uuid4 := ''id-2''\<rparr>) (ingest_event demo_body),
              ProcessFile demo_env (s3_event ''id-2'')]"
  have h: "\<forall>c \<in> set ?cs. \<not> writes_key c ''id-1''"
    by (simp add: s3_field_def demo_defs)
  have "attr_of (run ?cs (world_with ''id-1'' ''COMPLETED'' [(''text'', ''HELLO WORLD'')])) ''id-1'' ''status''
        = Some ''COMPLETED''"
    unfolding attr_of_def unaddressed_record_unchanged [OF h]
    by (simp add: world_with_def)
  with h show ?thesis by simp
qed

text \<open>
  C2 as stated fails: \<^verbatim>\<open>process_file\<close> for the key of a COMPLETED document succeeds and
  overwrites its state with PROCESSED and its text with the new extraction.
\<close>

theorem process_file_overwrites_completed:
  "attr_of (world_with ''id-1'' ''COMPLETED'' [(''text'', ''old text'')]) ''id-1'' ''status''
     = Some ''COMPLETED''
   \<and> attr_of (world_with ''id-1'' ''COMPLETED'' [(''text'', ''old text'')]) ''id-1'' ''text''
     = Some ''old text''
   \<and> attr_of (run [ProcessFile demo_env (s3_event ''id-1'')]
               (world_with ''id-1'' ''COMPLETED'' [(''text'', ''old text'')])) ''id-1'' ''status''
     = Some ''PROCESSED''
   \<and> attr_of (run [ProcessFile demo_env (s3_event ''id-1'')]
               (world_with ''id-1'' ''COMPLETED'' [(''text'', ''old text'')])) ''id-1'' ''text''
     = Some ''HELLO WORLD''"
  by (simp add: handler_defs service_defs demo_defs attr_of_def)

subsection \<open>C3: the state on which make_callback dispatches\<close>

text \<open>
  C3. The change record that \<^verbatim>\<open>process_file\<close> causes, a MODIFY whose new image has
  state PROCESSED, gets no callback: \<^verbatim>\<open>make_callback\<close> returns without a POST. The same
  record with state COMPLETED, a state that no handler writes, is the one it dispatches.
\<close>

theorem make_callback_skips_processed:
  "make_callback demo_env
     (stream_event [change_record ''MODIFY''
        [(''file_id'', ''id-1''), (''status'', ''PROCESSED''),
         (''callback_url'', ''https://example.test/hook''), (''text'', ''HELLO WORLD'')]])
     empty_world = (Inr (), empty_world)
   \<and> post_calls (snd (make_callback demo_env
        (stream_event [change_record ''MODIFY''
           [(''file_id'', ''id-1''), (''status'', ''COMPLETED''),
            (''callback_url'', ''https://example.test/hook''), (''text'', ''HELLO WORLD'')]])
        empty_world))
     = [(JStr ''https://example.test/hook'', JStr ''id-1'', JStr ''HELLO WORLD'')]"
  by (simp add: handler_defs service_defs demo_defs)

subsection \<open>C4: make_callback writes nothing to the ledger\<close>

text \<open>
  C4, as amended. Whatever the response to the POST, \<^verbatim>\<open>make_callback\<close> makes no ledger
  update: its only effect on the world is the POST calls it appends, and both its result
  and these calls are the ones it makes on the empty world, so they do not depend on the
  ledger (no \<^verbatim>\<open>notified\<close> flag is read or written, and a replayed change record is
  dispatched again).
\<close>

theorem make_callback_effect:
  "make_callback env event w =
     (fst (make_callback env event empty_world),
      w\<lparr>post_calls := post_calls w @ post_calls (snd (make_callback env event empty_world))\<rparr>)"
  by (rule make_callback_frame)

text \<open>
  C4 as stated fails: after a callback answered with 200 the record has no
  \<^verbatim>\<open>notified\<close> attribute, and a second delivery of the same change record posts again.
\<close>

theorem make_callback_never_marks_notified:
  "requests_post demo_env (JStr ''https://example.test/hook'') (JStr ''id-1'') (JStr ''HELLO WORLD'')
     = Inr 200
   \<and> post_calls (run [MakeCallback demo_env
        (stream_event [change_record ''MODIFY''
           [(''file_id'', ''id-1''), (''status'', ''COMPLETED''),
            (''callback_url'', ''https://example.test/hook''), (''text'', ''HELLO WORLD'')]])]
        (world_with ''id-1'' ''COMPLETED''
           [(''callback_url'', ''https://example.test/hook''), (''text'', ''HELLO WORLD'')]))
     = [(JStr ''https://example.test/hook'', JStr ''id-1'', JStr ''HELLO WORLD'')]
   \<and> attr_of (run [MakeCallback demo_env
        (stream_event [change_record ''MODIFY''
           [(''file_id'', ''id-1''), (''status'', ''COMPLETED''),
            (''callback_url'', ''https://example.test/hook''), (''text'', ''HELLO WORLD'')]])]
        (world_with ''id-1'' ''COMPLETED''
           [(''callback_url'', ''https://example.test/hook''), (''text'', ''HELLO WORLD'')]))
        ''id-1'' ''notified'' = None
   \<and> post_calls (run [MakeCallback demo_env
        (stream_event [change_record ''MODIFY''
           [(''file_id'', ''id-1''), (''status'', ''COMPLETED''),
            (''callback_url'', ''https://example.test/hook''), (''text'', ''HELLO WORLD'')]]),
                      MakeCallback demo_env
        (stream_event [change_record ''MODIFY''
           [(''file_id'', ''id-1''), (''status'', ''COMPLETED''),
            (''callback_url'', ''https://example.test/hook''), (''text'', ''HELLO WORLD'')]])]
        (world_with ''id-1'' ''COMPLETED''
           [(''callback_url'', ''https://example.test/hook''), (''text'', ''HELLO WORLD'')]))
     = [(JStr ''https://example.test/hook'', JStr ''id-1'', JStr ''HELLO WORLD''),
        (JStr ''https://example.test/hook'', JStr ''id-1'', JStr ''HELLO WORLD'')]"
  by (simp add: handler_defs service_defs demo_defs attr_of_def)

subsection \<open>C5: a failed process_file writes nothing\<close>




subsection \<open>C6: the callback url\<close>




subsection \<open>C7: process_file does not look at the state\<close>

text \<open>
  C7, as amended. \<^verbatim>\<open>process_file\<close> never reads the state of the document: its response
  is the same whatever the ledger holds. Its single ledger write is unconditional: when
  it succeeds, the record of the object key has state PROCESSED and the extracted text,
  whatever its state was, and is created if it did not exist.
\<close>

theorem process_file_unconditional:
  "fst (process_file env event (w\<lparr>files_table := t\<rparr>)) = fst (process_file env event w)
   \<and> (statusCode (fst (process_file env event w)) = 200 \<longrightarrow>
        (\<exists>k tx. s3_field event ''object'' ''key'' = Inr (JStr k) \<and>
           files_table (snd (process_file env event w)) =
             (files_table w)(k \<mapsto>
                (case files_table w k of None \<Rightarrow> [''file_id'' \<mapsto> k] | Some it \<Rightarrow> it)
                  (''status'' \<mapsto> ''PROCESSED'', ''text'' \<mapsto> tx))))"
  using process_file_cases [where env = env and event = event and w = w]
  by (cases "process_file env event w") (auto simp: process_file_response_ledger_free)

theorem process_file_unconditional_witness:
  "statusCode (fst (process_file demo_env (s3_event ''id-1'') (world_with ''id-1'' ''UPLOADED'' []))) = 200
   \<and> fst (process_file demo_env (s3_event ''id-1'')
            ((world_with ''id-1'' ''UPLOADED'' [])\<lparr>files_table := Map.empty\<rparr>))
     = fst (process_file demo_env (s3_event ''id-1'') (world_with ''id-1'' ''UPLOADED'' []))
   \<and> (\<exists>k tx. s3_field (s3_event ''id-1'') ''object'' ''key'' = Inr (JStr k) \<and>
          files_table (snd (process_file demo_env (s3_event ''id-1'') (world_with ''id-1'' ''UPLOADED'' []))) =
            (files_table (world_with ''id-1'' ''UPLOADED'' []))(k \<mapsto>
               (case files_table (world_with ''id-1'' ''UPLOADED'' []) k of
                  None \<Rightarrow> [''file_id'' \<mapsto> k] | Some it \<Rightarrow> it)
                 (''status'' \<mapsto> ''PROCESSED'', ''text'' \<mapsto> tx)))"
proof -
  have ok: "statusCode (fst (process_file demo_env (s3_event ''id-1'')
                               (world_with ''id-1'' ''UPLOADED'' []))) = 200"
    by (simp add: handler_defs service_defs demo_defs)
  from process_file_unconditional
         [where env = demo_env and event = "s3_event ''id-1''"
            and w = "world_with ''id-1'' ''UPLOADED'' []" and t = Map.empty]
       ok
  show ?thesis by blast
qed

text \<open>
  C7 as stated fails: for a document still in state UPLOADING, and for an object that
  has no record at all, \<^verbatim>\<open>process_file\<close> proceeds, returns 200 and writes state
  PROCESSED.
\<close>

theorem process_file_ignores_state:
  "statusCode (fst (process_file demo_env (s3_event ''id-1'') (world_with ''id-1'' ''UPLOADING'' []))) = 200
   \<and> attr_of (snd (process_file demo_env (s3_event ''id-1'') (world_with ''id-1'' ''UPLOADING'' [])))
        ''id-1'' ''status'' = Some ''PROCESSED''
   \<and> attr_of ((world_with ''id-1'' ''UPLOADING'' [])\<lparr>files_table := Map.empty\<rparr>) ''id-1'' ''status'' = None
   \<and> statusCode (fst (process_file demo_env (s3_event ''id-1'')
        ((world_with ''id-1'' ''UPLOADING'' [])\<lparr>files_table := Map.empty\<rparr>))) = 200
   \<and> attr_of (snd (process_file demo_env (s3_event ''id-1'')
        ((world_with ''id-1'' ''UPLOADING'' [])\<lparr>files_table := Map.empty\<rparr>)))
        ''id-1'' ''status'' = Some ''PROCESSED''"
  by (simp add: handler_defs service_defs demo_defs attr_of_def)

subsection \<open>C8: a malformed ingest request\<close>

text \<open>
  C8, as amended. For every ingest request that is malformed (the event has no body, the
  body is not JSON, it has no \<^verbatim>\<open>file\<close>, or the file is not base64), \<^verbatim>\<open>create_file\<close>
  returns 500 with the error in its body, as it does for a storage failure, and writes
  nothing. It never returns 400: its status code is 200 or 500.
\<close>

theorem create_file_malformed:
  "(file_content_of env event = Inl e \<longrightarrow>
      create_file env event w = (\<lparr>statusCode = 500, body = ErrorBody e\<rparr>, w))
   \<and> (statusCode (fst (create_file env event w)) = 200
        \<or> statusCode (fst (create_file env event w)) = 500)"
  using malformed_request_500 [of env event e w] create_file_status [of env event w]
  by blast

theorem create_file_malformed_witness:
  "file_content_of demo_env (ingest_event ''not json'') = Inl JSONDecodeError
   \<and> create_file demo_env (ingest_event ''not json'') empty_world
       = (\<lparr>statusCode = 500, body = ErrorBody JSONDecodeError\<rparr>, empty_world)"
proof -
  have h: "file_content_of demo_env (ingest_event ''not json'') = Inl JSONDecodeError"
    by (simp add: file_content_of_def demo_defs)
  from create_file_malformed
         [where env = demo_env and event = "ingest_event ''not json''" and e = JSONDecodeError
            and w = empty_world]
       h
  show ?thesis by blast
qed

text \<open>
  C8 as stated fails: a body that is not JSON, and an event without a body, are answered
  with 500, not 400.
\<close>

theorem malformed_request_answered_500:
  "json_loads demo_env ''not json'' = None
   \<and> statusCode (fst (create_file demo_env (ingest_event ''not json'') empty_world)) = 500
   \<and> create_file demo_env (JObj []) empty_world
       = (\<lparr>statusCode = 500, body = ErrorBody (KeyError ''body'')\<rparr>, empty_world)"
  by (simp add: handler_defs service_defs demo_defs)

subsection \<open>C9: get_file\<close>

text \<open>
  C9. For a query whose path parameter is the identity \<open>k\<close> and whose read of the
  ledger succeeds: when \<open>k\<close> has no record, \<^verbatim>\<open>get_file\<close> returns the 404 not-found
  error and no document; when it has one, in a ledger whose items carry their key and a
  status (every ledger that the handlers produce from the empty one), it returns 200
  with the identity, the stored status, and the stored text or null.
\<close>

theorem get_file_lookup:
  assumes "and_then (getitem event ''pathParameters'') (\<lambda>p. getitem p ''file_id'') = Inr (JStr k)"
    and "get_item_fault env = None"
  shows "(files_table w k = None \<longrightarrow>
            get_file env event w =
              Inr \<lparr>statusCode = 404,
                   body = JsonBody (JObj [(''error'', JStr ''File not found'')])\<rparr>)
         \<and> (ledger_ok w \<longrightarrow>
              (\<forall>it. files_table w k = Some it \<longrightarrow>
                 (\<exists>s. it ''status'' = Some s \<and>
                    get_file env event w =
                      Inr \<lparr>statusCode = 200,
                           body = JsonBody (JObj [(''file_id'', JStr k), (''status'', JStr s),
                                    (''text'', (case it ''text'' of None \<Rightarrow> JNull
                                                | Some t \<Rightarrow> JStr t))])\<rparr>)))"
proof (intro conjI impI allI)
  assume "files_table w k = None"
  with assms show "get_file env event w =
      Inr \<lparr>statusCode = 404, body = JsonBody (JObj [(''error'', JStr ''File not found'')])\<rparr>"
    by (simp add: get_file_unknown)
next
  fix it
  assume ok: "ledger_ok w" and it: "files_table w k = Some it"
  then obtain s where "it ''file_id'' = Some k" and s: "it ''status'' = Some s"
    by (auto simp: ledger_ok_def)
  with assms it have "get_file env event w =
      Inr \<lparr>statusCode = 200,
           body = JsonBody (JObj [(''file_id'', JStr k), (''status'', JStr s),
                    (''text'', (case it ''text'' of None \<Rightarrow> JNull | Some t \<Rightarrow> JStr t))])\<rparr>"
    by (simp add: get_file_known)
  with s show "\<exists>s. it ''status'' = Some s \<and>
      get_file env event w =
        Inr \<lparr>statusCode = 200,
             body = JsonBody (JObj [(''file_id'', JStr k), (''status'', JStr s),
                      (''text'', (case it ''text'' of None \<Rightarrow> JNull | Some t \<Rightarrow> JStr t))])\<rparr>"
    by blast
qed

theorem get_file_lookup_witness:
  "and_then (getitem (query_event ''nonexistent'') ''pathParameters'') (\<lambda>p. getitem p ''file_id'')
     = Inr (JStr ''nonexistent'')
   \<and> get_item_fault demo_env = None
   \<and> files_table (world_with ''id-1'' ''PROCESSED'' [(''text'', ''HELLO WORLD'')]) ''nonexistent'' = None
   \<and> get_file demo_env (query_event ''nonexistent'')
        (world_with ''id-1'' ''PROCESSED'' [(''text'', ''HELLO WORLD'')])
       = Inr \<lparr>statusCode = 404, body = JsonBody (JObj [(''error'', JStr ''File not found'')])\<rparr>
   \<and> ledger_ok (world_with ''id-1'' ''PROCESSED'' [(''text'', ''HELLO WORLD'')])
   \<and> get_file demo_env (query_event ''id-1'')
        (world_with ''id-1'' ''PROCESSED'' [(''text'', ''HELLO WORLD'')])
       = Inr \<lparr>statusCode = 200,
              body = JsonBody (JObj [(''file_id'', JStr ''id-1''), (''status'', JStr ''PROCESSED''),
                                     (''text'', JStr ''HELLO WORLD'')])\<rparr>"
proof -
  let ?w = "world_with ''id-1'' ''PROCESSED'' [(''text'', ''HELLO WORLD'')]"
  have e1: "and_then (getitem (query_event ''nonexistent'') ''pathParameters'')
              (\<lambda>p. getitem p ''file_id'') = Inr (JStr ''nonexistent'')"
    and e2: "and_then (getitem (query_event ''id-1'') ''pathParameters'')
              (\<lambda>p. getitem p ''file_id'') = Inr (JStr ''id-1'')"
    by (simp_all add: query_event_def)
  have f: "get_item_fault demo_env = None"
    by (simp add: demo_env_def)
  have none: "files_table ?w ''nonexistent'' = None"
    by (simp add: world_with_def)
  have ok: "ledger_ok ?w"
    by (simp add: ledger_ok_def world_with_def)
  have some: "files_table ?w ''id-1'' =
      Some [''file_id'' \<mapsto> ''id-1'', ''status'' \<mapsto> ''PROCESSED'', ''text'' \<mapsto> ''HELLO WORLD'']"
    by (simp add: world_with_def)
  from get_file_lookup [OF e1 f, of ?w] none
  have a: "get_file demo_env (query_event ''nonexistent'') ?w
       = Inr \<lparr>statusCode = 404, body = JsonBody (JObj [(''error'', JStr ''File not found'')])\<rparr>"
    by blast
  from get_file_lookup [OF e2 f, of ?w] ok some
  have b: "get_file demo_env (query_event ''id-1'') ?w
       = Inr \<lparr>statusCode = 200,
              body = JsonBody (JObj [(''file_id'', JStr ''id-1''), (''status'', JStr ''PROCESSED''),
                                     (''text'', JStr ''HELLO WORLD'')])\<rparr>"
    by auto
  from e1 f none a ok b show ?thesis by simp
qed

subsection \<open>C10: the text that process_file stores\<close>

text \<open>
  C10. Whenever \<^verbatim>\<open>process_file\<close> succeeds, the text it has stored in the record of the
  object key is the \<^verbatim>\<open>Text\<close> of exactly the blocks of Textract's response whose
  \<^verbatim>\<open>BlockType\<close> is \<^verbatim>\<open>LINE\<close>, in the order of the response, joined by single spaces.
\<close>

theorem process_file_stores_line_text:
  assumes "process_file env event w = (r, w')" and "statusCode r = 200"
  shows "\<exists>b k c resp blocks items.
           s3_field event ''bucket'' ''name'' = Inr (JStr b) \<and>
           s3_field event ''object'' ''key'' = Inr (JStr k) \<and>
           s3 w (b, k) = Some c \<and>
           detect_document_text env c = Inr resp \<and>
           getitem resp ''Blocks'' = Inr blocks \<and>
           iter blocks = Inr items \<and>
           attr_of w' k ''text'' = Some (spec_text items)"
proof -
  from process_file_cases [where env = env and event = event and w = w] assms
  obtain b k c resp tx where
    ev: "s3_field event ''bucket'' ''name'' = Inr (JStr b)"
        "s3_field event ''object'' ''key'' = Inr (JStr k)" and
    c: "s3 w (b, k) = Some c" and
    resp: "detect_document_text env c = Inr resp" and
    tx: "detected_text resp = Inr tx" and
    w': "w' = w\<lparr>files_table := (files_table w)(k \<mapsto>
               (case files_table w k of None \<Rightarrow> [''file_id'' \<mapsto> k] | Some it \<Rightarrow> it)
                 (''status'' \<mapsto> ''PROCESSED'', ''text'' \<mapsto> tx))\<rparr>"
    by auto
  from tx obtain blocks items where
    bl: "getitem resp ''Blocks'' = Inr blocks" "iter blocks = Inr items" "tx = spec_text items"
    by (auto dest: detected_text_spec)
  from w' bl(3) have "attr_of w' k ''text'' = Some (spec_text items)"
    by (simp add: attr_of_def)
  with ev c resp bl show ?thesis by blast
qed

theorem process_file_stores_line_text_witness:
  "statusCode (fst (process_file demo_env (s3_event ''id-1'') (world_with ''id-1'' ''UPLOADED'' []))) = 200
   \<and> spec_text demo_blocks = ''HELLO WORLD''
   \<and> attr_of (snd (process_file demo_env (s3_event ''id-1'') (world_with ''id-1'' ''UPLOADED'' [])))
        ''id-1'' ''text'' = Some ''HELLO WORLD''"
proof -
  let ?w = "world_with ''id-1'' ''UPLOADED'' []"
  obtain r w' where p: "process_file demo_env (s3_event ''id-1'') ?w = (r, w')"
    by (cases "process_file demo_env (s3_event ''id-1'') ?w")
  have ok: "statusCode (fst (process_file demo_env (s3_event ''id-1'') ?w)) = 200"
    by (simp add: handler_defs service_defs demo_defs)
  with p have r: "statusCode r = 200" by simp
  have sp: "spec_text demo_blocks = ''HELLO WORLD''"
    by (simp add: spec_text_def is_line_def block_text_def demo_blocks_def)
  from process_file_stores_line_text [OF p r]
  obtain b k c resp blocks items where
    k: "s3_field (s3_event ''id-1'') ''object'' ''key'' = Inr (JStr k)" and
    resp: "detect_document_text demo_env c = Inr resp" and
    bl: "getitem resp ''Blocks'' = Inr blocks" "iter blocks = Inr items" and
    at: "attr_of w' k ''text'' = Some (spec_text items)"
    by blast
  from k have "k = ''id-1''" by (simp add: s3_field_def s3_event_def)
  moreover from resp bl have "items = demo_blocks" by (auto simp: demo_env_def)
  ultimately have "attr_of w' ''id-1'' ''text'' = Some ''HELLO WORLD''"
    using at sp by simp
  with p ok sp show ?thesis by simp
qed

end
